theory Spec2Isabelle
  imports Complex_Main "HOL-Library.Sublist"
begin

section \<open>Python string primitives\<close>

text \<open>
  A Python \<^verbatim>\<open>str\<close> is modelled as a \<^typ>\<open>string\<close>, one \<^typ>\<open>char\<close> per ASCII
  character. \<^verbatim>\<open>str.lower()\<close> maps the letters \<^verbatim>\<open>A\<close>..\<^verbatim>\<open>Z\<close> to \<^verbatim>\<open>a\<close>..\<^verbatim>\<open>z\<close> and keeps
  every other character, which is what Python does on ASCII text; \<^verbatim>\<open>str.isdigit()\<close>
  holds of \<^verbatim>\<open>0\<close>..\<^verbatim>\<open>9\<close>. The model is that of ASCII queries: on other text Python
  also lowers letters outside ASCII (the Kelvin sign U+212A becomes \<^verbatim>\<open>k\<close>) and counts
  further Unicode digits (such as U+0663) as digits, which these two functions do not.
  Python's \<^verbatim>\<open>sub in s\<close> is \<^const>\<open>sublist\<close> (a contiguous substring),
  \<^verbatim>\<open>s.startswith(p)\<close> is \<^const>\<open>prefix\<close> and \<^verbatim>\<open>s.endswith(p)\<close> is \<^const>\<open>suffix\<close>.
\<close>

definition lower_char :: "char \<Rightarrow> char" where
  "lower_char c =
     (case map_of (zip ''ABCDEFGHIJKLMNOPQRSTUVWXYZ'' ''abcdefghijklmnopqrstuvwxyz'') c of
        Some l \<Rightarrow> l
      | None \<Rightarrow> c)"

definition lower :: "string \<Rightarrow> string" where
  "lower s = map lower_char s"

definition isdigit :: "char \<Rightarrow> bool" where
  "isdigit c = (c \<in> set ''0123456789'')"

text \<open>\<^verbatim>\<open>any(k in s for k in ks)\<close>\<close>

definition any_in :: "string list \<Rightarrow> string \<Rightarrow> bool" where
  "any_in ks s = list_ex (\<lambda>k. sublist k s) ks"

text \<open>\<^verbatim>\<open>any(s.startswith(p) for p in ps)\<close>\<close>

definition any_startswith :: "string \<Rightarrow> string list \<Rightarrow> bool" where
  "any_startswith s ps = list_ex (\<lambda>p. prefix p s) ps"


section \<open>Session state and observable effects\<close>

text \<open>
  The chat history holds \<^verbatim>\<open>HumanMessage\<close> and \<^verbatim>\<open>AIMessage\<close> objects. An exception is
  represented by the text \<^verbatim>\<open>str(e)\<close> that the handlers print.
\<close>

datatype message = HumanMessage string | AIMessage string

datatype exn = Exception string

fun str_exn :: "exn \<Rightarrow> string" where
  "str_exn (Exception m) = m"

text \<open>
  Everything the managers do to the outside world is recorded, in order, in a trace:
  calls of the language model, the search tool and the retriever, log lines, warnings
  shown to the user, and the temporary files of document processing.
\<close>

datatype event =
    LlmInvoke string
  | SearchRun string
  | RetrieverInvoke string
  | LoaderLoad string
  | TempFileWrite string
  | TempFileUnlink string
  | SplitDocuments
  | FaissFromDocuments
  | LogInfo string
  | LogError string
  | StWarning string

text \<open>
  \<^verbatim>\<open>st.session_state\<close>: the message list of \<^verbatim>\<open>chat_history\<close>, the vector store
  (\<^verbatim>\<open>None\<close> until documents are processed), and the counters of the enhanced
  application (\<^verbatim>\<open>route_stats\<close> is a dict, a lookup of a missing key raises
  \<^verbatim>\<open>KeyError\<close>). The field \<open>effects\<close> is the trace of the events above. The lists
  \<^verbatim>\<open>messages\<close> and \<^verbatim>\<open>processed_files\<close> belong to the page code in \<^verbatim>\<open>main()\<close> and are
  not used by the router or the managers.
\<close>

record 'v session =
  chat_history :: "message list"
  vectorstore :: "'v option"
  route_stats :: "string \<rightharpoonup> nat"
  total_queries :: nat
  effects :: "event list"

definition emit :: "event \<Rightarrow> 'v session \<Rightarrow> 'v session" where
  "emit e s = s\<lparr>effects := effects s @ [e]\<rparr>"


section \<open>The query router\<close>

text \<open>
  The four helper methods below have the same body in \<^verbatim>\<open>IntelligentRouter\<close>
  (\<^verbatim>\<open>chatbot_app.py\<close>) and in \<^verbatim>\<open>EnhancedRouter\<close> (\<^verbatim>\<open>chatbot_app_enhanced.py\<close>); the
  leading underscore of their Python names is dropped.
\<close>

definition context_indicators :: "string list" where
  "context_indicators =
    ['' it '', '' its '', '' that '', '' this '', '' these '', '' those '',
     '' them '', '' they '', '' their '',
     ''the result'', ''the answer'', ''your response'', ''you said'',
     ''above'', ''previous'', ''earlier'', ''before'',
     ''also'', ''and'', ''then'', ''next'', ''now'', ''after that'',
     ''add to'', ''subtract from'', ''multiply by'', ''divide by'',
     ''plus'', ''minus'', ''times'']"

definition has_conversation_context :: "string \<Rightarrow> message list \<Rightarrow> bool" where
  "has_conversation_context query history =
     (if length history = 0 then False
      else any_in context_indicators (lower query))"

definition math_operators :: "string list" where
  "math_operators = [''+'', ''-'', ''*'', ''/'', ''='', ''^'']"

definition math_keywords :: "string list" where
  "math_keywords =
    [''calculate'', ''compute'', ''solve'', ''evaluate'',
     ''add'', ''sum'', ''plus'', ''addition'',
     ''subtract'', ''minus'', ''difference'',
     ''multiply'', ''times'', ''product'',
     ''divide'', ''quotient'',
     ''equals'', ''equal to'',
     ''square'', ''power'', ''root'',
     ''percentage'', ''percent'']"

definition is_mathematical :: "string \<Rightarrow> bool" where
  "is_mathematical query =
     (let has_operators = any_in math_operators query;
          has_math_keywords = any_in math_keywords (lower query);
          has_numbers = list_ex isdigit query
      in has_operators \<or> (has_math_keywords \<and> has_numbers))"

definition temporal_words :: "string list" where
  "temporal_words =
    [''current'', ''latest'', ''today'', ''now'', ''recent'',
     ''this week'', ''this month'', ''right now'', ''live'']"

definition realtime_data_types :: "string list" where
  "realtime_data_types =
    [''price'', ''rate'', ''stock'', ''market'', ''exchange'', ''crypto'', ''bitcoin'',
     ''trading'', ''value'', ''worth'',
     ''news'', ''breaking'', ''update'', ''happening'', ''event'',
     ''weather'', ''temperature'', ''forecast'', ''climate'',
     ''score'', ''game'', ''match'', ''tournament'',
     ''traffic'', ''status'', ''available'', ''open'', ''closed'']"

definition needs_realtime_data :: "string \<Rightarrow> bool" where
  "needs_realtime_data query =
     (let has_temporal = any_in temporal_words (lower query);
          has_realtime_type = any_in realtime_data_types (lower query)
      in has_temporal \<and> has_realtime_type)"

definition doc_keywords :: "string list" where
  "doc_keywords =
    [''document'', ''file'', ''pdf'', ''text'', ''paper'', ''article'',
     ''uploaded'', ''attachment'',
     ''in the'', ''from the'', ''according to'',
     ''what does'', ''summarize'', ''extract'',
     ''content'', ''written'', ''mentioned'']"

definition references_documents :: "string \<Rightarrow> bool \<Rightarrow> bool" where
  "references_documents query has_documents =
     (if \<not> has_documents then False
      else any_in doc_keywords (lower query))"

subsection \<open>\<^verbatim>\<open>IntelligentRouter.route_query\<close>\<close>

definition IntelligentRouter_simple_phrases :: "string list" where
  "IntelligentRouter_simple_phrases =
    [''hello'', ''hi '', ''hey '', ''good morning'', ''good afternoon'',
     ''good evening'', ''thanks'', ''thank you'', ''bye'', ''goodbye'',
     ''how are you'', ''what's up'', ''sup'', ''yo '']"

definition IntelligentRouter_llm_indicators :: "string list" where
  "IntelligentRouter_llm_indicators =
    [''explain'', ''how does'', ''why'', ''what is'', ''who is'',
     ''describe'', ''tell me about'', ''can you'',
     ''help me'', ''i need'', ''i want'',
     ''write'', ''create'', ''generate'', ''make'',
     ''compare'', ''difference between'']"

text \<open>
  The method returns one of the strings \<^verbatim>\<open>'llm'\<close>, \<^verbatim>\<open>'rag'\<close>, \<^verbatim>\<open>'web'\<close>. It runs inside
  the session, which it hands back as it found it: the source neither reads nor writes
  \<^verbatim>\<open>st.session_state\<close>, calls no collaborator and logs nothing.
\<close>

definition IntelligentRouter_route_query ::
  "string \<Rightarrow> bool \<Rightarrow> message list \<Rightarrow> 'v session \<Rightarrow> string \<times> 'v session" where
  "IntelligentRouter_route_query query has_documents history s =
     (let query_lower = lower query in
      if any_startswith query_lower IntelligentRouter_simple_phrases then (''llm'', s)
      else if has_conversation_context query history then (''llm'', s)
      else if is_mathematical query then (''llm'', s)
      else if references_documents query has_documents then (''rag'', s)
      else if needs_realtime_data query then (''web'', s)
      else if any_in IntelligentRouter_llm_indicators query_lower then (''llm'', s)
      else (''llm'', s))"

subsection \<open>\<^verbatim>\<open>EnhancedRouter.route_query\<close>\<close>

record RouteDecision =
  route :: string
  confidence :: real
  reason :: string

definition EnhancedRouter_simple_phrases :: "string list" where
  "EnhancedRouter_simple_phrases =
    [''hello'', ''hi '', ''hey '', ''good morning'', ''good afternoon'',
     ''good evening'', ''thanks'', ''thank you'', ''bye'', ''goodbye'',
     ''how are you'', ''what's up'']"

definition EnhancedRouter_llm_indicators :: "string list" where
  "EnhancedRouter_llm_indicators =
    [''explain'', ''how does'', ''why'', ''what is'', ''who is'',
     ''describe'', ''tell me about'', ''can you'',
     ''help me'', ''write'', ''create'', ''generate'',
     ''compare'', ''difference between'']"

text \<open>
  The body of the \<^verbatim>\<open>try\<close> block. None of its operations raises on a \<^verbatim>\<open>str\<close> query and
  a list history, so it always ends in a \<^verbatim>\<open>return\<close> (\<^const>\<open>Inr\<close>).
\<close>

definition EnhancedRouter_route_query_try ::
  "string \<Rightarrow> bool \<Rightarrow> message list \<Rightarrow> exn + RouteDecision" where
  "EnhancedRouter_route_query_try query has_documents history =
     (let query_lower = lower query in
      if any_startswith query_lower EnhancedRouter_simple_phrases
        then Inr \<lparr>route = ''llm'', confidence = 1.0, reason = ''Conversational''\<rparr>
      else if has_conversation_context query history
        then Inr \<lparr>route = ''llm'', confidence = 1.0, reason = ''Context reference''\<rparr>
      else if is_mathematical query
        then Inr \<lparr>route = ''llm'', confidence = 1.0, reason = ''Mathematical''\<rparr>
      else if references_documents query has_documents
        then Inr \<lparr>route = ''rag'', confidence = 0.95, reason = ''Document reference''\<rparr>
      else if needs_realtime_data query
        then Inr \<lparr>route = ''web'', confidence = 0.95, reason = ''Real-time data''\<rparr>
      else if any_in EnhancedRouter_llm_indicators query_lower
        then Inr \<lparr>route = ''llm'', confidence = 0.9, reason = ''General knowledge''\<rparr>
      else Inr \<lparr>route = ''llm'', confidence = 0.8, reason = ''Default''\<rparr>)"

text \<open>The method: the \<^verbatim>\<open>try\<close> block and its \<^verbatim>\<open>except Exception\<close> handler, which logs.\<close>

definition EnhancedRouter_route_query ::
  "string \<Rightarrow> bool \<Rightarrow> message list \<Rightarrow> 'v session \<Rightarrow> RouteDecision \<times> 'v session" where
  "EnhancedRouter_route_query query has_documents history s =
     (case EnhancedRouter_route_query_try query has_documents history of
        Inr decision \<Rightarrow> (decision, s)
      | Inl e \<Rightarrow>
          (\<lparr>route = ''llm'', confidence = 0.5, reason = ''Error fallback''\<rparr>,
           emit (LogError (''Routing error: '' @ str_exn e)) s))"


section \<open>Collaborators and further Python primitives\<close>

text \<open>
  \<^verbatim>\<open>sep.join(xs)\<close>, \<^verbatim>\<open>xs[-n:]\<close>, the decimal \<^verbatim>\<open>str(n)\<close> of a natural number,
  \<^verbatim>\<open>os.path.basename(p)\<close> and \<^verbatim>\<open>name.split('.')[-1]\<close>.
\<close>

definition nl :: string where
  "nl = [CHR 0x0A]"

fun join :: "string \<Rightarrow> string list \<Rightarrow> string" where
  "join sep [] = []"
| "join sep [x] = x"
| "join sep (x # y # ys) = x @ sep @ join sep (y # ys)"

definition last_n :: "nat \<Rightarrow> 'a list \<Rightarrow> 'a list" where
  "last_n n xs = drop (length xs - n) xs"

fun str_nat :: "nat \<Rightarrow> string" where
  "str_nat n =
     (if n < 10 then [''0123456789'' ! n]
      else str_nat (n div 10) @ [''0123456789'' ! (n mod 10)])"

definition basename :: "string \<Rightarrow> string" where
  "basename p = rev (takeWhile (\<lambda>c. c \<noteq> CHR ''/'') (rev p))"

definition split_dot_last :: "string \<Rightarrow> string" where
  "split_dot_last name = rev (takeWhile (\<lambda>c. c \<noteq> CHR ''.'') (rev name))"

text \<open>
  A LangChain \<^verbatim>\<open>Document\<close> (its metadata dict as an association list) and a Streamlit
  \<^verbatim>\<open>UploadedFile\<close>.
\<close>

record document =
  page_content :: string
  metadata :: "(string \<times> string) list"

record uploaded_file =
  name :: string
  getvalue :: string

text \<open>
  The libraries the managers call are parameters of the model. A call either returns or
  raises:
  \<^item> \<open>llm_invoke prompt\<close> is \<^verbatim>\<open>self.llm.invoke(prompt).content\<close>;
  \<^item> \<open>search_run query\<close> is \<^verbatim>\<open>self.search_tool.run(query)\<close>;
  \<^item> \<open>retriever_invoke v query\<close> is
    \<^verbatim>\<open>v.as_retriever(search_kwargs={"k": 4}).invoke(query)\<close>;
  \<^item> \<open>loader_load kind file\<close> builds the loader for \<open>kind\<close> (\<^verbatim>\<open>pdf\<close>: \<^verbatim>\<open>PyPDFLoader\<close>,
    \<^verbatim>\<open>txt\<close>: \<^verbatim>\<open>TextLoader\<close>, \<^verbatim>\<open>docx\<close>: \<^verbatim>\<open>Docx2txtLoader\<close>) on the temporary copy of
    \<open>file\<close> and calls its \<^verbatim>\<open>load()\<close>;
  \<^item> \<open>split_documents\<close> is the \<^verbatim>\<open>RecursiveCharacterTextSplitter\<close> with chunk size 1000
    and overlap 200;
  \<^item> \<open>from_documents splits\<close> is \<^verbatim>\<open>FAISS.from_documents(splits, self.embeddings)\<close>.
  Writing and removing the temporary file are taken to succeed.
\<close>

record 'v collaborators =
  llm_invoke :: "string \<Rightarrow> exn + string"
  search_run :: "string \<Rightarrow> exn + string"
  retriever_invoke :: "'v \<Rightarrow> string \<Rightarrow> exn + document list"
  loader_load :: "string \<Rightarrow> uploaded_file \<Rightarrow> exn + document list"
  split_documents :: "document list \<Rightarrow> document list"
  from_documents :: "document list \<Rightarrow> exn + 'v"


section \<open>Prompts and fixed texts\<close>

text \<open>
  The prompt templates of \<^verbatim>\<open>answer_with_llm\<close> and \<^verbatim>\<open>answer_with_rag\<close> are the same in
  both managers; the synthesis prompt of \<^verbatim>\<open>answer_with_web\<close> differs. A character of
  the source outside ASCII is written as its UTF-8 bytes.
\<close>

definition llm_prompt_with_history :: "string \<Rightarrow> string \<Rightarrow> string" where
  "llm_prompt_with_history context_text query =
     ''You are an intelligent AI assistant in an ongoing conversation. Your job is to:'' @ nl @
     ''1. Understand and use the conversation history when the user references it'' @ nl @
     ''2. Provide accurate calculations and reasoning'' @ nl @
     ''3. Maintain conversational flow and context awareness'' @ nl @
     ''4. Give direct, precise answers'' @ nl @ nl @
     ''CONVERSATION HISTORY:'' @ nl @
     context_text @ nl @ nl @
     ''CURRENT USER QUESTION: '' @ query @ nl @ nl @
     ''CRITICAL INSTRUCTIONS:'' @ nl @
     ''- If the user uses words like \"it\", \"that\", \"this\", \"the result\", or refers to something from history, USE THE CONVERSATION HISTORY ABOVE'' @ nl @
     ''- For mathematical operations, show clear step-by-step reasoning'' @ nl @
     ''- If continuing a previous topic, acknowledge the connection'' @ nl @
     ''- Be natural and conversational while being accurate'' @ nl @
     ''- Answer directly without unnecessary preamble'' @ nl @ nl @
     ''YOUR RESPONSE:''"

definition llm_prompt_first_interaction :: "string \<Rightarrow> string" where
  "llm_prompt_first_interaction query =
     ''You are an intelligent AI assistant. Provide a clear, accurate, and helpful response to the user's question.'' @ nl @ nl @
     ''USER QUESTION: '' @ query @ nl @ nl @
     ''INSTRUCTIONS:'' @ nl @
     ''- Be accurate and precise'' @ nl @
     ''- For math, show your reasoning'' @ nl @
     ''- Be conversational and friendly'' @ nl @
     ''- Answer directly'' @ nl @ nl @
     ''YOUR RESPONSE:''"

definition rag_prompt :: "string \<Rightarrow> string \<Rightarrow> string" where
  "rag_prompt context query =
     ''You are a helpful AI assistant. Use the following context from documents to answer the question.'' @ nl @
     ''If the answer is not in the context, say so clearly.'' @ nl @ nl @
     ''Context from documents:'' @ nl @
     context @ nl @ nl @
     ''Question: '' @ query @ nl @ nl @
     ''Answer based on the context above:''"

definition ChatbotManager_synthesis_prompt :: "string \<Rightarrow> string \<Rightarrow> string" where
  "ChatbotManager_synthesis_prompt query search_results =
     ''Based on the following web search results, provide a comprehensive and accurate answer to the user's query.'' @ nl @ nl @
     ''User Query: '' @ query @ nl @ nl @
     ''Search Results:'' @ nl @
     search_results @ nl @ nl @
     ''Instructions:'' @ nl @
     ''- Synthesize the information into a clear, coherent answer'' @ nl @
     ''- Include relevant facts and details'' @ nl @
     ''- If the search results don't contain enough information, say so'' @ nl @
     ''- Be concise but informative'' @ nl @ nl @
     ''Answer:''"

definition EnhancedChatbotManager_synthesis_prompt :: "string \<Rightarrow> string \<Rightarrow> string" where
  "EnhancedChatbotManager_synthesis_prompt query search_results =
     ''Synthesize a comprehensive answer from these web search results.'' @ nl @ nl @
     ''Query: '' @ query @ nl @ nl @
     ''Search Results:'' @ nl @
     search_results @ nl @ nl @
     ''Provide a clear, well-structured answer with key information:''"

text \<open>The lines \<^verbatim>\<open>User: ...\<close> and \<^verbatim>\<open>Assistant: ...\<close> built from \<^verbatim>\<open>messages[-12:]\<close>.\<close>

fun context_line :: "message \<Rightarrow> string" where
  "context_line (HumanMessage content) = ''User: '' @ content"
| "context_line (AIMessage content) = ''Assistant: '' @ content"

definition llm_prompt :: "message list \<Rightarrow> string \<Rightarrow> string" where
  "llm_prompt messages query =
     (let context_history = map context_line (last_n 12 messages) in
      if context_history \<noteq> []
      then llm_prompt_with_history (join nl context_history) query
      else llm_prompt_first_interaction query)"

text \<open>
  The source list appended by \<^verbatim>\<open>answer_with_rag\<close>: the loop over
  \<^verbatim>\<open>enumerate(docs[:3], 1)\<close> with its set \<^verbatim>\<open>seen_sources\<close>; \<open>indent\<close> is empty in
  \<^verbatim>\<open>ChatbotManager\<close> and three spaces in \<^verbatim>\<open>EnhancedChatbotManager\<close>.
\<close>

definition doc_source :: "document \<Rightarrow> string" where
  "doc_source doc =
     basename (case map_of (metadata doc) ''source'' of Some p \<Rightarrow> p | None \<Rightarrow> ''Unknown'')"

fun source_lines :: "string \<Rightarrow> nat \<Rightarrow> document list \<Rightarrow> string list \<Rightarrow> string" where
  "source_lines indent i [] seen_sources = []"
| "source_lines indent i (doc # docs) seen_sources =
     (let source = doc_source doc in
      if source \<notin> set seen_sources
      then indent @ str_nat i @ ''. '' @ source @ nl
             @ source_lines indent (Suc i) docs (source # seen_sources)
      else source_lines indent (Suc i) docs seen_sources)"


section \<open>\<^verbatim>\<open>ChatbotManager\<close> (\<^verbatim>\<open>chatbot_app.py\<close>)\<close>

text \<open>
  A method that can raise returns \<open>(Inl e, s)\<close> or \<open>(Inr result, s)\<close>, with the session
  \<open>s\<close> as it is when the method ends; a method that catches everything returns its
  plain result.
\<close>

subsection \<open>\<^verbatim>\<open>process_documents\<close>\<close>

definition ChatbotManager_loader_kind :: "string \<Rightarrow> string option" where
  "ChatbotManager_loader_kind file_name =
     (if suffix ''.pdf'' file_name then Some ''pdf''
      else if suffix ''.txt'' file_name then Some ''txt''
      else if suffix ''.docx'' file_name then Some ''docx''
      else None)"

text \<open>
  The \<^verbatim>\<open>for\<close> loop. The \<^verbatim>\<open>try\<close> has a \<^verbatim>\<open>finally\<close> and no \<^verbatim>\<open>except\<close>: when \<^verbatim>\<open>load()\<close>
  raises, the temporary file is removed and the exception leaves the loop.
\<close>

fun ChatbotManager_load_files ::
  "'v collaborators \<Rightarrow> uploaded_file list \<Rightarrow> document list \<Rightarrow> 'v session
     \<Rightarrow> (exn + document list) \<times> 'v session" where
  "ChatbotManager_load_files env [] documents s = (Inr documents, s)"
| "ChatbotManager_load_files env (f # fs) documents s =
     (let s1 = emit (TempFileWrite (name f)) s in
      case ChatbotManager_loader_kind (name f) of
        None \<Rightarrow>
          (let s2 = emit (StWarning (''Unsupported file type: '' @ name f)) s1;
               s3 = emit (TempFileUnlink (name f)) s2
           in ChatbotManager_load_files env fs documents s3)
      | Some kind \<Rightarrow>
          (let s2 = emit (LoaderLoad (name f)) s1;
               s3 = emit (TempFileUnlink (name f)) s2
           in case loader_load env kind f of
                Inl e \<Rightarrow> (Inl e, s3)
              | Inr docs \<Rightarrow> ChatbotManager_load_files env fs (documents @ docs) s3))"

definition build_vectorstore ::
  "'v collaborators \<Rightarrow> document list \<Rightarrow> 'v session \<Rightarrow> (exn + document list \<times> 'v) \<times> 'v session" where
  "build_vectorstore env documents s =
     (let splits = split_documents env documents;
          s1 = emit SplitDocuments s;
          s2 = emit FaissFromDocuments s1
      in case from_documents env splits of
           Inl e \<Rightarrow> (Inl e, s2)
         | Inr v \<Rightarrow> (Inr (splits, v), s2))"

definition ChatbotManager_process_documents ::
  "'v collaborators \<Rightarrow> uploaded_file list \<Rightarrow> 'v session \<Rightarrow> (exn + 'v option) \<times> 'v session" where
  "ChatbotManager_process_documents env uploaded_files s =
     (case ChatbotManager_load_files env uploaded_files [] s of
        (Inl e, s1) \<Rightarrow> (Inl e, s1)
      | (Inr documents, s1) \<Rightarrow>
          if documents = [] then (Inr None, s1)
          else (case build_vectorstore env documents s1 of
                  (Inl e, s2) \<Rightarrow> (Inl e, s2)
                | (Inr (splits, v), s2) \<Rightarrow> (Inr (Some v), s2)))"

subsection \<open>The answer pipelines\<close>

text \<open>
  \<^verbatim>\<open>answer_with_llm\<close> ignores its \<^verbatim>\<open>chat_history\<close> argument and reads the messages of
  the session. It has no handler: an exception of the model leaves the method.
\<close>

definition ChatbotManager_answer_with_llm ::
  "'v collaborators \<Rightarrow> string \<Rightarrow> message list \<Rightarrow> 'v session \<Rightarrow> (exn + string) \<times> 'v session" where
  "ChatbotManager_answer_with_llm env query history s =
     (let messages = chat_history s;
          prompt = llm_prompt messages query;
          s1 = emit (LlmInvoke prompt) s
      in case llm_invoke env prompt of
           Inl e \<Rightarrow> (Inl e, s1)
         | Inr content \<Rightarrow> (Inr content, s1))"

definition ChatbotManager_no_documents :: string where
  "ChatbotManager_no_documents =
     ''No documents have been uploaded yet. Please upload documents to use RAG.''"

definition ChatbotManager_answer_with_rag ::
  "'v collaborators \<Rightarrow> string \<Rightarrow> 'v option \<Rightarrow> message list \<Rightarrow> 'v session \<Rightarrow> string \<times> 'v session" where
  "ChatbotManager_answer_with_rag env query store history s =
     (case store of
        None \<Rightarrow> (ChatbotManager_no_documents, s)
      | Some v \<Rightarrow>
          (let s1 = emit (RetrieverInvoke query) s in
           case retriever_invoke env v query of
             Inl e \<Rightarrow> (''Error accessing documents: '' @ str_exn e, s1)
           | Inr docs \<Rightarrow>
               (let context = join (nl @ nl) (map page_content docs);
                    prompt = rag_prompt context query;
                    s2 = emit (LlmInvoke prompt) s1
                in case llm_invoke env prompt of
                     Inl e \<Rightarrow> (''Error accessing documents: '' @ str_exn e, s2)
                   | Inr content \<Rightarrow>
                       (if docs \<noteq> []
                        then content @ nl @ nl @ ''**Sources:**'' @ nl
                               @ source_lines [] 1 (take 3 docs) []
                        else content, s2))))"

text \<open>
  The handler of \<^verbatim>\<open>answer_with_web\<close>: the text of the exception goes into the answer,
  followed by what \<^verbatim>\<open>answer_with_llm\<close> returns for the same query.
\<close>

definition ChatbotManager_web_fallback ::
  "'v collaborators \<Rightarrow> string \<Rightarrow> exn \<Rightarrow> 'v session \<Rightarrow> (exn + string) \<times> 'v session" where
  "ChatbotManager_web_fallback env query e s =
     (case ChatbotManager_answer_with_llm env query (chat_history s) s of
        (Inl e', s1) \<Rightarrow> (Inl e', s1)
      | (Inr answer, s1) \<Rightarrow>
          (Inr (''Web search encountered an error: '' @ str_exn e @ nl
                  @ ''Let me try to answer from my knowledge instead.'' @ nl @ nl @ answer), s1))"

definition ChatbotManager_answer_with_web ::
  "'v collaborators \<Rightarrow> string \<Rightarrow> 'v session \<Rightarrow> (exn + string) \<times> 'v session" where
  "ChatbotManager_answer_with_web env query s =
     (let s1 = emit (SearchRun query) s in
      case search_run env query of
        Inl e \<Rightarrow> ChatbotManager_web_fallback env query e s1
      | Inr search_results \<Rightarrow>
          (let synthesis_prompt = ChatbotManager_synthesis_prompt query search_results;
               s2 = emit (LlmInvoke synthesis_prompt) s1
           in case llm_invoke env synthesis_prompt of
                Inl e \<Rightarrow> ChatbotManager_web_fallback env query e s2
              | Inr content \<Rightarrow> (Inr (content @ nl @ nl @ ''*Source: Web Search*''), s2)))"

subsection \<open>\<^verbatim>\<open>process_query\<close>\<close>

text \<open>
  The two \<^verbatim>\<open>add_..._message\<close> calls append to the message list. The result dict
  \<^verbatim>\<open>{"answer": answer, "route": route}\<close> is the pair \<open>(answer, route)\<close>.
\<close>

definition add_user_message :: "string \<Rightarrow> 'v session \<Rightarrow> 'v session" where
  "add_user_message text s = s\<lparr>chat_history := chat_history s @ [HumanMessage text]\<rparr>"

definition add_ai_message :: "string \<Rightarrow> 'v session \<Rightarrow> 'v session" where
  "add_ai_message text s = s\<lparr>chat_history := chat_history s @ [AIMessage text]\<rparr>"



section \<open>\<^verbatim>\<open>EnhancedChatbotManager\<close> (\<^verbatim>\<open>chatbot_app_enhanced.py\<close>)\<close>

subsection \<open>\<^verbatim>\<open>process_documents\<close>\<close>

text \<open>
  The \<^verbatim>\<open>for\<close> loop, with the lists \<^verbatim>\<open>documents\<close> and \<^verbatim>\<open>errors\<close> it fills. The
  \<^verbatim>\<open>except Exception\<close> clause turns a failing \<^verbatim>\<open>load()\<close> into an entry of \<^verbatim>\<open>errors\<close>.
\<close>

fun EnhancedChatbotManager_load_files ::
  "'v collaborators \<Rightarrow> uploaded_file list \<Rightarrow> document list \<Rightarrow> string list \<Rightarrow> 'v session
     \<Rightarrow> (document list \<times> string list) \<times> 'v session" where
  "EnhancedChatbotManager_load_files env [] documents errors s = ((documents, errors), s)"
| "EnhancedChatbotManager_load_files env (f # fs) documents errors s =
     (let s1 = emit (TempFileWrite (name f)) s;
          file_ext = lower (split_dot_last (name f))
      in if file_ext = ''pdf'' \<or> file_ext = ''txt'' \<or> file_ext = ''docx''
         then (let s2 = emit (LoaderLoad (name f)) s1 in
               case loader_load env file_ext f of
                 Inr docs \<Rightarrow>
                   (let s3 = emit (LogInfo (''Successfully processed: '' @ name f)) s2;
                        s4 = emit (TempFileUnlink (name f)) s3
                    in EnhancedChatbotManager_load_files env fs (documents @ docs) errors s4)
               | Inl e \<Rightarrow>
                   (let error_msg = ''Error processing '' @ name f @ '': '' @ str_exn e;
                        s3 = emit (LogError error_msg) s2;
                        s4 = emit (TempFileUnlink (name f)) s3
                    in EnhancedChatbotManager_load_files env fs documents (errors @ [error_msg]) s4))
         else (let s2 = emit (TempFileUnlink (name f)) s1
               in EnhancedChatbotManager_load_files env fs documents
                    (errors @ [''Unsupported file type: '' @ name f]) s2))"

definition EnhancedChatbotManager_process_documents ::
  "'v collaborators \<Rightarrow> uploaded_file list \<Rightarrow> 'v session \<Rightarrow> (exn + 'v option) \<times> 'v session" where
  "EnhancedChatbotManager_process_documents env uploaded_files s =
     (case EnhancedChatbotManager_load_files env uploaded_files [] [] s of
        ((documents, errors), s1) \<Rightarrow>
          (let s2 = (if errors \<noteq> []
                     then emit (StWarning (''Some files had errors:'' @ nl @ join nl errors)) s1
                     else s1)
           in if documents = [] then (Inr None, s2)
              else (case build_vectorstore env documents s2 of
                      (Inl e, s3) \<Rightarrow> (Inl e, s3)
                    | (Inr (splits, v), s3) \<Rightarrow>
                        (Inr (Some v),
                         emit (LogInfo (''Created vector store with '' @ str_nat (length splits)
                                          @ '' chunks'')) s3))))"

subsection \<open>The answer pipelines\<close>

text \<open>Each pipeline catches every exception, so each returns a plain string.\<close>

definition EnhancedChatbotManager_answer_with_llm ::
  "'v collaborators \<Rightarrow> string \<Rightarrow> message list \<Rightarrow> 'v session \<Rightarrow> string \<times> 'v session" where
  "EnhancedChatbotManager_answer_with_llm env query history s =
     (let messages = chat_history s;
          prompt = llm_prompt messages query;
          s1 = emit (LlmInvoke prompt) s
      in case llm_invoke env prompt of
           Inr content \<Rightarrow> (content, s1)
         | Inl e \<Rightarrow>
             (''I apologize, but I encountered an error: '' @ str_exn e,
              emit (LogError (''LLM error: '' @ str_exn e)) s1))"

definition EnhancedChatbotManager_no_documents :: string where
  "EnhancedChatbotManager_no_documents =
     ''No documents available. Please upload documents first.''"

definition books_emoji :: string where
  "books_emoji = [CHR 0xF0, CHR 0x9F, CHR 0x93, CHR 0x9A]"

definition globe_emoji :: string where
  "globe_emoji = [CHR 0xF0, CHR 0x9F, CHR 0x8C, CHR 0x90]"

definition EnhancedChatbotManager_answer_with_rag ::
  "'v collaborators \<Rightarrow> string \<Rightarrow> 'v option \<Rightarrow> message list \<Rightarrow> 'v session \<Rightarrow> string \<times> 'v session" where
  "EnhancedChatbotManager_answer_with_rag env query store history s =
     (case store of
        None \<Rightarrow> (EnhancedChatbotManager_no_documents, s)
      | Some v \<Rightarrow>
          (let s1 = emit (RetrieverInvoke query) s in
           case retriever_invoke env v query of
             Inl e \<Rightarrow>
               (''Error accessing documents: '' @ str_exn e,
                emit (LogError (''RAG error: '' @ str_exn e)) s1)
           | Inr docs \<Rightarrow>
               (let context = join (nl @ nl) (map page_content docs);
                    prompt = rag_prompt context query;
                    s2 = emit (LlmInvoke prompt) s1
                in case llm_invoke env prompt of
                     Inl e \<Rightarrow>
                       (''Error accessing documents: '' @ str_exn e,
                        emit (LogError (''RAG error: '' @ str_exn e)) s2)
                   | Inr content \<Rightarrow>
                       (if docs \<noteq> []
                        then content @ nl @ nl @ books_emoji @ '' **Sources:**'' @ nl
                               @ source_lines ''   '' 1 (take 3 docs) []
                        else content, s2))))"

text \<open>
  The handler of \<^verbatim>\<open>answer_with_web\<close>: it logs, and returns what \<^verbatim>\<open>answer_with_llm\<close>
  returns for the query with a note appended.
\<close>

definition EnhancedChatbotManager_web_fallback ::
  "'v collaborators \<Rightarrow> string \<Rightarrow> exn \<Rightarrow> 'v session \<Rightarrow> string \<times> 'v session" where
  "EnhancedChatbotManager_web_fallback env query e s =
     (let s1 = emit (LogError (''Web search error: '' @ str_exn e)) s
      in EnhancedChatbotManager_answer_with_llm env
           (query @ '' (Note: Web search unavailable, using general knowledge)'')
           (chat_history s1) s1)"

definition EnhancedChatbotManager_answer_with_web ::
  "'v collaborators \<Rightarrow> string \<Rightarrow> 'v session \<Rightarrow> string \<times> 'v session" where
  "EnhancedChatbotManager_answer_with_web env query s =
     (let s1 = emit (SearchRun query) s in
      case search_run env query of
        Inl e \<Rightarrow> EnhancedChatbotManager_web_fallback env query e s1
      | Inr search_results \<Rightarrow>
          (let synthesis_prompt = EnhancedChatbotManager_synthesis_prompt query search_results;
               s2 = emit (LlmInvoke synthesis_prompt) s1
           in case llm_invoke env synthesis_prompt of
                Inl e \<Rightarrow> EnhancedChatbotManager_web_fallback env query e s2
              | Inr content \<Rightarrow>
                  (content @ nl @ nl @ globe_emoji @ '' *Information from web search*'', s2)))"

subsection \<open>\<^verbatim>\<open>process_query\<close>\<close>

text \<open>The result dict has the keys of a route decision and \<^verbatim>\<open>answer\<close>.\<close>

record QueryResult = RouteDecision +
  answer :: string





section \<open>Session start\<close>

text \<open>
  \<^verbatim>\<open>init_session_state()\<close> of \<^verbatim>\<open>chatbot_app_enhanced.py\<close>: the session as the
  application creates it. \<^verbatim>\<open>chatbot_app.py\<close> creates the same session without the two
  counters, which it never uses.
\<close>

definition init_session_state :: "'v session" where
  "init_session_state =
     \<lparr>chat_history = [], vectorstore = None,
      route_stats = [''llm'' \<mapsto> 0, ''rag'' \<mapsto> 0, ''web'' \<mapsto> 0],
      total_queries = 0, effects = []\<rparr>"


section \<open>Auxiliary definitions for the statements\<close>

text \<open>
  Two sessions are the same up to the trace when they agree on every field of
  \<^verbatim>\<open>st.session_state\<close>.
\<close>

definition same_session :: "'v session \<Rightarrow> 'v session \<Rightarrow> bool" where
  "same_session s s' \<longleftrightarrow>
     chat_history s' = chat_history s \<and> vectorstore s' = vectorstore s
     \<and> route_stats s' = route_stats s \<and> total_queries s' = total_queries s"

text \<open>
  What one uploaded file contributes to a batch. In \<^verbatim>\<open>EnhancedChatbotManager\<close> a file adds
  its documents, or one entry to \<^verbatim>\<open>errors\<close> when its type is not supported or its
  loader raises. In \<^verbatim>\<open>ChatbotManager\<close> a file of unsupported type adds nothing, and any
  other file adds what its loader returns or raises.
\<close>

definition EnhancedChatbotManager_file_documents ::
  "'v collaborators \<Rightarrow> uploaded_file \<Rightarrow> document list" where
  "EnhancedChatbotManager_file_documents env f =
     (let file_ext = lower (split_dot_last (name f)) in
      if file_ext = ''pdf'' \<or> file_ext = ''txt'' \<or> file_ext = ''docx''
      then (case loader_load env file_ext f of Inr docs \<Rightarrow> docs | Inl e \<Rightarrow> [])
      else [])"

definition EnhancedChatbotManager_file_errors ::
  "'v collaborators \<Rightarrow> uploaded_file \<Rightarrow> string list" where
  "EnhancedChatbotManager_file_errors env f =
     (let file_ext = lower (split_dot_last (name f)) in
      if file_ext = ''pdf'' \<or> file_ext = ''txt'' \<or> file_ext = ''docx''
      then (case loader_load env file_ext f of
              Inr docs \<Rightarrow> []
            | Inl e \<Rightarrow> [''Error processing '' @ name f @ '': '' @ str_exn e])
      else [''Unsupported file type: '' @ name f])"

definition ChatbotManager_file_outcome ::
  "'v collaborators \<Rightarrow> uploaded_file \<Rightarrow> exn + document list" where
  "ChatbotManager_file_outcome env f =
     (case ChatbotManager_loader_kind (name f) of
        None \<Rightarrow> Inr []
      | Some kind \<Rightarrow> loader_load env kind f)"

text \<open>
  Collaborators for concrete runs: the language model and the search tool give fixed
  outcomes, and a loader fails on an empty upload and otherwise returns its content as
  one document.
\<close>

definition example_env :: "(exn + string) \<Rightarrow> (exn + string) \<Rightarrow> unit collaborators" where
  "example_env llm_result search_result =
     \<lparr>llm_invoke = (\<lambda>prompt. llm_result),
      search_run = (\<lambda>query. search_result),
      retriever_invoke = (\<lambda>v query. Inr []),
      loader_load = (\<lambda>kind f. if getvalue f = [] then Inl (Exception ''empty file'')
                      else Inr [\<lparr>page_content = getvalue f, metadata = [(''source'', name f)]\<rparr>]),
      split_documents = (\<lambda>documents. documents),
      from_documents = (\<lambda>splits. Inr ())\<rparr>"


section \<open>Facts about the string primitives\<close>



lemma any_inI: "k \<in> set ks \<Longrightarrow> sublist k s \<Longrightarrow> any_in ks s"
  unfolding any_in_def list_ex_iff by blast

lemma sublist_singleton: "sublist [c] s \<longleftrightarrow> c \<in> set s"
proof
  assume "sublist [c] s"
  then show "c \<in> set s" by (auto simp: sublist_def)
next
  assume "c \<in> set s"
  then obtain ps ss where "s = ps @ c # ss" by (auto simp: in_set_conv_decomp)
  then have "s = ps @ [c] @ ss" by simp
  then show "sublist [c] s" unfolding sublist_def by blast
qed


lemmas router_defs = IntelligentRouter_route_query_def EnhancedRouter_route_query_def
  EnhancedRouter_route_query_try_def


section \<open>Claims about the router\<close>




text \<open>
  Claim C3. Either router answers \<^verbatim>\<open>'web'\<close> only for a query whose lowercased text
  contains a temporal word and a real-time data type; a query with one family only
  (or none) is never routed to the web.
\<close>

theorem web_requires_both_families:
  "(fst (IntelligentRouter_route_query query has_documents history s) = ''web''
      \<longrightarrow> any_in temporal_words (lower query) \<and> any_in realtime_data_types (lower query))
   \<and> (route (fst (EnhancedRouter_route_query query has_documents history s')) = ''web''
      \<longrightarrow> any_in temporal_words (lower query) \<and> any_in realtime_data_types (lower query))"
  by (simp add: router_defs Let_def needs_realtime_data_def)

theorem web_requires_both_families_witness:
  "fst (IntelligentRouter_route_query ''What's the weather today?'' False []
          (init_session_state :: unit session)) = ''web''
   \<and> route (fst (EnhancedRouter_route_query ''What's the weather today?'' False []
          (init_session_state :: unit session))) = ''web''
   \<and> any_in temporal_words (lower ''What's the weather today?'')
   \<and> any_in realtime_data_types (lower ''What's the weather today?'')
   \<and> fst (IntelligentRouter_route_query ''current'' False []
          (init_session_state :: unit session)) \<noteq> ''web''
   \<and> route (fst (EnhancedRouter_route_query ''current'' False []
          (init_session_state :: unit session))) \<noteq> ''web''"
proof -
  let ?s = "init_session_state :: unit session"
  have a: "fst (IntelligentRouter_route_query ''What's the weather today?'' False [] ?s) = ''web''"
    by code_simp
  have b: "route (fst (EnhancedRouter_route_query ''What's the weather today?'' False [] ?s)) = ''web''"
    by code_simp
  have c: "\<not> any_in realtime_data_types (lower ''current'')"
    by code_simp
  show ?thesis
    using web_requires_both_families [of "''What's the weather today?''" False "[]" ?s ?s]
      web_requires_both_families [of "''current''" False "[]" ?s ?s] a b c
    by blast
qed

text \<open>
  Claim C4. Either router answers \<^verbatim>\<open>'rag'\<close> only when \<open>has_documents\<close> is true and
  the lowercased query contains a document keyword; with \<open>has_documents\<close> false the
  route is never \<^verbatim>\<open>'rag'\<close>, whatever the query contains.
\<close>

theorem rag_requires_documents_and_keyword:
  "(fst (IntelligentRouter_route_query query has_documents history s) = ''rag''
      \<longrightarrow> has_documents \<and> any_in doc_keywords (lower query))
   \<and> (route (fst (EnhancedRouter_route_query query has_documents history s')) = ''rag''
      \<longrightarrow> has_documents \<and> any_in doc_keywords (lower query))
   \<and> fst (IntelligentRouter_route_query query False history s) \<noteq> ''rag''
   \<and> route (fst (EnhancedRouter_route_query query False history s')) \<noteq> ''rag''"
  by (simp add: router_defs Let_def references_documents_def)

theorem rag_requires_documents_and_keyword_witness:
  "fst (IntelligentRouter_route_query ''Summarize the uploaded PDF'' True []
          (init_session_state :: unit session)) = ''rag''
   \<and> route (fst (EnhancedRouter_route_query ''Summarize the uploaded PDF'' True []
          (init_session_state :: unit session))) = ''rag''
   \<and> any_in doc_keywords (lower ''Summarize the uploaded PDF'')
   \<and> fst (IntelligentRouter_route_query ''Summarize the uploaded PDF'' False []
          (init_session_state :: unit session)) \<noteq> ''rag''
   \<and> route (fst (EnhancedRouter_route_query ''Summarize the uploaded PDF'' False []
          (init_session_state :: unit session))) \<noteq> ''rag''"
proof -
  let ?s = "init_session_state :: unit session"
  have a: "fst (IntelligentRouter_route_query ''Summarize the uploaded PDF'' True [] ?s) = ''rag''"
    by code_simp
  have b: "route (fst (EnhancedRouter_route_query ''Summarize the uploaded PDF'' True [] ?s)) = ''rag''"
    by code_simp
  show ?thesis
    using rag_requires_documents_and_keyword [of "''Summarize the uploaded PDF''" True "[]" ?s ?s] a b
    by blast
qed

text \<open>
  Claim C5. A query that contains one of the operator characters \<^verbatim>\<open>+ - * / = ^\<close> is
  routed to \<^verbatim>\<open>'llm'\<close> by either router, for every history and document flag: each of
  the stages 1 to 3 answers \<^verbatim>\<open>'llm'\<close>, and stage 3 fires on the operator.
\<close>

theorem operator_routes_to_llm:
  assumes "c \<in> set ''+-*/=^''" and "c \<in> set query"
  shows "fst (IntelligentRouter_route_query query has_documents history s) = ''llm''
       \<and> route (fst (EnhancedRouter_route_query query has_documents history s')) = ''llm''"
proof -
  have "[c] \<in> set math_operators"
    using assms(1) by (simp add: math_operators_def)
  moreover have "sublist [c] query"
    using assms(2) by (simp add: sublist_singleton)
  ultimately have "any_in math_operators query"
    by (rule any_inI)
  then have "is_mathematical query"
    by (simp add: is_mathematical_def)
  then show ?thesis
    by (simp add: router_defs Let_def)
qed

theorem operator_routes_to_llm_witness:
  "needs_realtime_data ''latest bitcoin price + fees''
   \<and> fst (IntelligentRouter_route_query ''latest bitcoin price + fees'' False []
          (init_session_state :: unit session)) = ''llm''
   \<and> route (fst (EnhancedRouter_route_query ''latest bitcoin price + fees'' False []
          (init_session_state :: unit session))) = ''llm''"
proof -
  have h1: "CHR ''+'' \<in> set ''+-*/=^''" by simp
  have h2: "CHR ''+'' \<in> set ''latest bitcoin price + fees''" by simp
  have r: "needs_realtime_data ''latest bitcoin price + fees''" by code_simp
  show ?thesis
    using operator_routes_to_llm [OF h1 h2, of False "[]" init_session_state init_session_state] r
    by simp
qed

text \<open>
  Claim C9. Routing is a function of the query, the document flag and the history only:
  run in two arbitrary sessions it gives the same decision, and it returns the session
  it was given, with no event added to the trace.
\<close>

theorem route_query_pure:
  "IntelligentRouter_route_query query has_documents history s1 =
     (fst (IntelligentRouter_route_query query has_documents history s2), s1)
   \<and> EnhancedRouter_route_query query has_documents history s1 =
     (fst (EnhancedRouter_route_query query has_documents history s2), s1)"
  by (simp add: router_defs Let_def)




section \<open>Facts about the session and the pipelines\<close>

lemma emit_fields [simp]:
  "chat_history (emit e s) = chat_history s"
  "vectorstore (emit e s) = vectorstore s"
  "route_stats (emit e s) = route_stats s"
  "total_queries (emit e s) = total_queries s"
  "effects (emit e s) = effects s @ [e]"
  by (simp_all add: emit_def)

lemma same_session_refl [simp]: "same_session s s"
  by (simp add: same_session_def)

lemma same_session_emit [simp]: "same_session s (emit e s') = same_session s s'"
  by (simp add: same_session_def)

lemma ChatbotManager_answer_with_llm_eq:
  "ChatbotManager_answer_with_llm env q h s =
     (llm_invoke env (llm_prompt (chat_history s) q),
      emit (LlmInvoke (llm_prompt (chat_history s) q)) s)"
  by (simp add: ChatbotManager_answer_with_llm_def Let_def split: sum.split)

lemma EnhancedChatbotManager_answer_with_llm_eq:
  "EnhancedChatbotManager_answer_with_llm env q h s =
     (case llm_invoke env (llm_prompt (chat_history s) q) of
        Inr content \<Rightarrow> (content, emit (LlmInvoke (llm_prompt (chat_history s) q)) s)
      | Inl e \<Rightarrow>
          (''I apologize, but I encountered an error: '' @ str_exn e,
           emit (LogError (''LLM error: '' @ str_exn e))
             (emit (LlmInvoke (llm_prompt (chat_history s) q)) s)))"
  by (simp add: EnhancedChatbotManager_answer_with_llm_def Let_def)


lemma enhanced_llm_answer:
  "chat_history s' = chat_history s \<Longrightarrow>
   fst (EnhancedChatbotManager_answer_with_llm env q h' s')
     = fst (EnhancedChatbotManager_answer_with_llm env q h s)"
  by (simp add: EnhancedChatbotManager_answer_with_llm_def Let_def split: sum.split)






text \<open>With a vector store, the first thing \<^verbatim>\<open>answer_with_rag\<close> does is to call the retriever.\<close>

lemma answer_with_rag_calls_retriever:
  "prefix (effects s @ [RetrieverInvoke query])
     (effects (snd (ChatbotManager_answer_with_rag env query (Some v) history s)))"
  "prefix (effects s @ [RetrieverInvoke query])
     (effects (snd (EnhancedChatbotManager_answer_with_rag env query (Some v) history s)))"
  by (simp_all add: ChatbotManager_answer_with_rag_def EnhancedChatbotManager_answer_with_rag_def
      Let_def split: sum.split)


section \<open>Claims about the pipelines\<close>

text \<open>
  Claim C8. With no vector store, \<^verbatim>\<open>answer_with_rag\<close> of either manager returns its fixed
  message for every query and hands back the session unchanged: the trace gains no call
  of the retriever or of the language model.
\<close>

theorem rag_without_index_fixed_message:
  "ChatbotManager_answer_with_rag env query None history s = (ChatbotManager_no_documents, s)
   \<and> EnhancedChatbotManager_answer_with_rag env query None history s
       = (EnhancedChatbotManager_no_documents, s)"
  by (simp add: ChatbotManager_answer_with_rag_def EnhancedChatbotManager_answer_with_rag_def)

text \<open>
  Claim C7, as amended. When the search tool raises,
  \<^verbatim>\<open>EnhancedChatbotManager.answer_with_web\<close> calls the language model on the prompt for
  the query with the note appended and returns what \<^verbatim>\<open>answer_with_llm\<close> returns for it:
  the reply of the model, or, when the model raises too, the apology followed by the text
  of the model's exception. The answer is a function of the outcome of the model alone.
  \<^verbatim>\<open>ChatbotManager.answer_with_web\<close> calls the model on the prompt for the unchanged
  query; its answer is the sentence \<^verbatim>\<open>Web search encountered an error:\<close> with the text of
  the search exception, followed by the reply of the model, and an exception of the model
  leaves the method.
\<close>

theorem web_search_failure_fallback:
  assumes "search_run env query = Inl e"
  shows "fst (EnhancedChatbotManager_answer_with_web env query s)
           = fst (EnhancedChatbotManager_answer_with_llm env
                    (query @ '' (Note: Web search unavailable, using general knowledge)'')
                    (chat_history s) s)
       \<and> fst (EnhancedChatbotManager_answer_with_web env query s)
           = (case llm_invoke env (llm_prompt (chat_history s)
                    (query @ '' (Note: Web search unavailable, using general knowledge)'')) of
                Inr content \<Rightarrow> content
              | Inl e' \<Rightarrow> ''I apologize, but I encountered an error: '' @ str_exn e')
       \<and> LlmInvoke (llm_prompt (chat_history s)
              (query @ '' (Note: Web search unavailable, using general knowledge)''))
           \<in> set (effects (snd (EnhancedChatbotManager_answer_with_web env query s)))
       \<and> fst (ChatbotManager_answer_with_web env query s)
           = (case fst (ChatbotManager_answer_with_llm env query (chat_history s) s) of
                Inl e' \<Rightarrow> Inl e'
              | Inr a \<Rightarrow>
                  Inr (''Web search encountered an error: '' @ str_exn e @ nl
                         @ ''Let me try to answer from my knowledge instead.'' @ nl @ nl @ a))
       \<and> fst (ChatbotManager_answer_with_web env query s)
           = (case llm_invoke env (llm_prompt (chat_history s) query) of
                Inl e' \<Rightarrow> Inl e'
              | Inr a \<Rightarrow>
                  Inr (''Web search encountered an error: '' @ str_exn e @ nl
                         @ ''Let me try to answer from my knowledge instead.'' @ nl @ nl @ a))
       \<and> LlmInvoke (llm_prompt (chat_history s) query)
           \<in> set (effects (snd (ChatbotManager_answer_with_web env query s)))"
proof (intro conjI)
  show "fst (EnhancedChatbotManager_answer_with_web env query s)
           = fst (EnhancedChatbotManager_answer_with_llm env
                    (query @ '' (Note: Web search unavailable, using general knowledge)'')
                    (chat_history s) s)"
    using assms
    by (simp add: EnhancedChatbotManager_answer_with_web_def EnhancedChatbotManager_web_fallback_def
        Let_def enhanced_llm_answer)
  show "fst (EnhancedChatbotManager_answer_with_web env query s)
           = (case llm_invoke env (llm_prompt (chat_history s)
                    (query @ '' (Note: Web search unavailable, using general knowledge)'')) of
                Inr content \<Rightarrow> content
              | Inl e' \<Rightarrow> ''I apologize, but I encountered an error: '' @ str_exn e')"
    using assms
    by (simp add: EnhancedChatbotManager_answer_with_web_def EnhancedChatbotManager_web_fallback_def
        Let_def EnhancedChatbotManager_answer_with_llm_eq split: sum.split)
  show "LlmInvoke (llm_prompt (chat_history s)
              (query @ '' (Note: Web search unavailable, using general knowledge)''))
           \<in> set (effects (snd (EnhancedChatbotManager_answer_with_web env query s)))"
    using assms
    by (simp add: EnhancedChatbotManager_answer_with_web_def EnhancedChatbotManager_web_fallback_def
        Let_def EnhancedChatbotManager_answer_with_llm_eq split: sum.split)
  show "fst (ChatbotManager_answer_with_web env query s)
           = (case fst (ChatbotManager_answer_with_llm env query (chat_history s) s) of
                Inl e' \<Rightarrow> Inl e'
              | Inr a \<Rightarrow>
                  Inr (''Web search encountered an error: '' @ str_exn e @ nl
                         @ ''Let me try to answer from my knowledge instead.'' @ nl @ nl @ a))"
    using assms
    by (simp add: ChatbotManager_answer_with_web_def ChatbotManager_web_fallback_def
        Let_def ChatbotManager_answer_with_llm_eq split: sum.split)
  show "fst (ChatbotManager_answer_with_web env query s)
           = (case llm_invoke env (llm_prompt (chat_history s) query) of
                Inl e' \<Rightarrow> Inl e'
              | Inr a \<Rightarrow>
                  Inr (''Web search encountered an error: '' @ str_exn e @ nl
                         @ ''Let me try to answer from my knowledge instead.'' @ nl @ nl @ a))"
    using assms
    by (simp add: ChatbotManager_answer_with_web_def ChatbotManager_web_fallback_def
        Let_def ChatbotManager_answer_with_llm_eq split: sum.split)
  show "LlmInvoke (llm_prompt (chat_history s) query)
           \<in> set (effects (snd (ChatbotManager_answer_with_web env query s)))"
    using assms
    by (simp add: ChatbotManager_answer_with_web_def ChatbotManager_web_fallback_def
        Let_def ChatbotManager_answer_with_llm_eq split: sum.split)
qed

theorem web_search_failure_fallback_witness:
  "search_run (example_env (Inr ''I do not know.'') (Inl (Exception ''RatelimitException: 202 Ratelimit'')))
      ''What's the current stock price of Acme Corp?'' = Inl (Exception ''RatelimitException: 202 Ratelimit'')
   \<and> fst (EnhancedChatbotManager_answer_with_web
          (example_env (Inr ''I do not know.'') (Inl (Exception ''RatelimitException: 202 Ratelimit'')))
          ''What's the current stock price of Acme Corp?'' (init_session_state :: unit session)) = ''I do not know.''
   \<and> fst (EnhancedChatbotManager_answer_with_web
          (example_env (Inl (Exception ''Connection refused'')) (Inl (Exception ''Connection refused'')))
          ''What's the current stock price of Acme Corp?'' (init_session_state :: unit session))
        = ''I apologize, but I encountered an error: Connection refused''"
proof -
  let ?env = "example_env (Inr ''I do not know.'') (Inl (Exception ''RatelimitException: 202 Ratelimit''))"
  let ?env2 = "example_env (Inl (Exception ''Connection refused'')) (Inl (Exception ''Connection refused''))"
  let ?q = "''What's the current stock price of Acme Corp?''"
  let ?s = "init_session_state :: unit session"
  have h: "search_run ?env ?q = Inl (Exception ''RatelimitException: 202 Ratelimit'')"
    by (simp add: example_env_def)
  have h2: "search_run ?env2 ?q = Inl (Exception ''Connection refused'')"
    by (simp add: example_env_def)
  have l: "llm_invoke ?env p = Inr ''I do not know.''" for p
    by (simp add: example_env_def)
  have l2: "llm_invoke ?env2 p = Inl (Exception ''Connection refused'')" for p
    by (simp add: example_env_def)
  from web_search_failure_fallback [OF h, of ?s]
  have "fst (EnhancedChatbotManager_answer_with_web ?env ?q ?s)
          = (case llm_invoke ?env (llm_prompt (chat_history ?s)
                    (?q @ '' (Note: Web search unavailable, using general knowledge)'')) of
                Inr content \<Rightarrow> content
              | Inl e' \<Rightarrow> ''I apologize, but I encountered an error: '' @ str_exn e')"
    by blast
  then have 1: "fst (EnhancedChatbotManager_answer_with_web ?env ?q ?s)
          = ''I do not know.''"
    by (simp only: l sum.case)
  from web_search_failure_fallback [OF h2, of ?s]
  have "fst (EnhancedChatbotManager_answer_with_web ?env2 ?q ?s)
          = (case llm_invoke ?env2 (llm_prompt (chat_history ?s)
                    (?q @ '' (Note: Web search unavailable, using general knowledge)'')) of
                Inr content \<Rightarrow> content
              | Inl e' \<Rightarrow> ''I apologize, but I encountered an error: '' @ str_exn e')"
    by blast
  then have 2: "fst (EnhancedChatbotManager_answer_with_web ?env2 ?q ?s)
        = ''I apologize, but I encountered an error: Connection refused''"
    by (simp add: l2)
  from h 1 2 show ?thesis by blast
qed

text \<open>
  In \<^verbatim>\<open>ChatbotManager\<close> the answer shows the text of the search exception to the user.
\<close>

theorem base_web_fallback_shows_exception:
  "fst (ChatbotManager_answer_with_web
          (example_env (Inr ''I do not know.'') (Inl (Exception ''RatelimitException: 202 Ratelimit'')))
          ''What's the current stock price of Acme Corp?'' init_session_state)
     = Inr (''Web search encountered an error: RatelimitException: 202 Ratelimit'' @ nl
              @ ''Let me try to answer from my knowledge instead.'' @ nl @ nl @ ''I do not know.'')
   \<and> sublist ''RatelimitException: 202 Ratelimit''
        (''Web search encountered an error: RatelimitException: 202 Ratelimit'' @ nl
              @ ''Let me try to answer from my knowledge instead.'' @ nl @ nl @ ''I do not know.'')"
proof
  show "fst (ChatbotManager_answer_with_web
          (example_env (Inr ''I do not know.'') (Inl (Exception ''RatelimitException: 202 Ratelimit'')))
          ''What's the current stock price of Acme Corp?'' init_session_state)
     = Inr (''Web search encountered an error: RatelimitException: 202 Ratelimit'' @ nl
              @ ''Let me try to answer from my knowledge instead.'' @ nl @ nl @ ''I do not know.'')"
    by (simp add: ChatbotManager_answer_with_web_def ChatbotManager_web_fallback_def
        ChatbotManager_answer_with_llm_def example_env_def Let_def)
  show "sublist ''RatelimitException: 202 Ratelimit''
        (''Web search encountered an error: RatelimitException: 202 Ratelimit'' @ nl
              @ ''Let me try to answer from my knowledge instead.'' @ nl @ nl @ ''I do not know.'')"
    by code_simp
qed


section \<open>Claims about the orchestrator\<close>




lemma add_message_history [simp]:
  "chat_history (add_user_message t s) = chat_history s @ [HumanMessage t]"
  "chat_history (add_ai_message t s) = chat_history s @ [AIMessage t]"
  "route_stats (add_user_message t s) = route_stats s"
  "route_stats (add_ai_message t s) = route_stats s"
  by (simp_all add: add_user_message_def add_ai_message_def)











section \<open>Claims about document ingestion\<close>

lemma enhanced_load_files_result:
  "fst (EnhancedChatbotManager_load_files env files documents errors s) =
     (documents @ concat (map (EnhancedChatbotManager_file_documents env) files),
      errors @ concat (map (EnhancedChatbotManager_file_errors env) files))"
proof (induction files arbitrary: documents errors s)
  case Nil
  then show ?case by simp
next
  case (Cons f files)
  then show ?case
    by (simp add: Let_def EnhancedChatbotManager_file_documents_def
        EnhancedChatbotManager_file_errors_def split: sum.split)
qed

lemma build_vectorstore_effects:
  "effects (snd (build_vectorstore env documents s)) = effects s @ [SplitDocuments, FaissFromDocuments]"
  by (simp add: build_vectorstore_def Let_def split: sum.split)

lemma build_vectorstore_result:
  "fst (build_vectorstore env documents s) =
     (case from_documents env (split_documents env documents) of
        Inl e \<Rightarrow> Inl e
      | Inr v \<Rightarrow> Inr (split_documents env documents, v))"
  by (simp add: build_vectorstore_def Let_def split: sum.split)

lemma enhanced_process_documents_result:
  "fst (EnhancedChatbotManager_process_documents env files s) =
     (let documents = concat (map (EnhancedChatbotManager_file_documents env) files) in
      if documents = [] then Inr None
      else (case from_documents env (split_documents env documents) of
              Inl e \<Rightarrow> Inl e
            | Inr v \<Rightarrow> Inr (Some v)))"
proof -
  obtain ds es s1 where l: "EnhancedChatbotManager_load_files env files [] [] s = ((ds, es), s1)"
    by (metis surj_pair)
  have ds: "ds = concat (map (EnhancedChatbotManager_file_documents env) files)"
    using enhanced_load_files_result [of env files "[]" "[]" s] l by simp
  let ?s2 = "if es \<noteq> [] then emit (StWarning (''Some files had errors:'' @ nl @ join nl es)) s1 else s1"
  obtain r s3 where b: "build_vectorstore env ds ?s2 = (r, s3)"
    by (metis surj_pair)
  have r: "r = (case from_documents env (split_documents env ds) of
        Inl e \<Rightarrow> Inl e | Inr v \<Rightarrow> Inr (split_documents env ds, v))"
    using build_vectorstore_result [of env ds ?s2] b by simp
  show ?thesis
    unfolding EnhancedChatbotManager_process_documents_def l prod.case Let_def ds [symmetric]
    using b r by (auto split: sum.split)
qed

lemma enhanced_process_documents_warning:
  assumes "concat (map (EnhancedChatbotManager_file_errors env) files) \<noteq> []"
  shows "StWarning (''Some files had errors:'' @ nl
            @ join nl (concat (map (EnhancedChatbotManager_file_errors env) files)))
          \<in> set (effects (snd (EnhancedChatbotManager_process_documents env files s)))"
proof -
  obtain ds es s1 where l: "EnhancedChatbotManager_load_files env files [] [] s = ((ds, es), s1)"
    by (metis surj_pair)
  have es: "es = concat (map (EnhancedChatbotManager_file_errors env) files)"
    using enhanced_load_files_result [of env files "[]" "[]" s] l by simp
  with assms have ne: "es \<noteq> []" by simp
  let ?s2 = "emit (StWarning (''Some files had errors:'' @ nl @ join nl es)) s1"
  obtain r s3 where b: "build_vectorstore env ds ?s2 = (r, s3)"
    by (metis surj_pair)
  have e3: "effects s3 = effects ?s2 @ [SplitDocuments, FaissFromDocuments]"
    using build_vectorstore_effects [of env ds ?s2] b by simp
  show ?thesis
    unfolding EnhancedChatbotManager_process_documents_def l prod.case Let_def es [symmetric]
    using ne b e3 by (auto split: sum.split)
qed

lemma base_load_files_ok:
  "fst (ChatbotManager_load_files env files documents s) = Inr ds \<Longrightarrow>
     ds = documents @ concat (map (\<lambda>f. case ChatbotManager_file_outcome env f of
                                            Inr d \<Rightarrow> d | Inl e \<Rightarrow> []) files)
     \<and> (\<forall>f \<in> set files. \<exists>d. ChatbotManager_file_outcome env f = Inr d)"
proof (induction files arbitrary: documents s)
  case Nil
  then show ?case by simp
next
  case (Cons f files)
  show ?case
  proof (cases "ChatbotManager_loader_kind (name f)")
    case None
    with Cons.prems Cons.IH show ?thesis
      by (simp add: Let_def ChatbotManager_file_outcome_def)
  next
    case (Some kind)
    show ?thesis
    proof (cases "loader_load env kind f")
      case (Inl e)
      with Some Cons.prems show ?thesis
        by (simp add: Let_def)
    next
      case (Inr docs)
      with Some Cons.prems Cons.IH [of "documents @ docs"] show ?thesis
        by (simp add: Let_def ChatbotManager_file_outcome_def)
    qed
  qed
qed

lemma base_load_files_raise:
  "\<forall>g \<in> set pre. \<exists>d. ChatbotManager_file_outcome env g = Inr d \<Longrightarrow>
   ChatbotManager_file_outcome env f = Inl e \<Longrightarrow>
   fst (ChatbotManager_load_files env (pre @ f # post) documents s) = Inl e"
proof (induction pre arbitrary: documents s)
  case Nil
  then show ?case
    by (simp add: Let_def ChatbotManager_file_outcome_def split: option.splits)
next
  case (Cons g pre)
  then show ?case
    by (auto simp: Let_def ChatbotManager_file_outcome_def split: option.splits sum.splits)
qed

lemma base_process_documents_none:
  assumes "fst (ChatbotManager_process_documents env files s) = Inr None"
  shows "\<forall>f \<in> set files. ChatbotManager_file_outcome env f = Inr []"
proof -
  obtain r s1 where l: "ChatbotManager_load_files env files [] s = (r, s1)"
    by (metis surj_pair)
  from assms l obtain ds where r: "r = Inr ds" and ds: "ds = []"
    by (auto simp: ChatbotManager_process_documents_def build_vectorstore_def Let_def
        split: sum.splits if_splits prod.splits)
  from base_load_files_ok [of env files "[]" s ds] l r
  have c: "ds = concat (map (\<lambda>f. case ChatbotManager_file_outcome env f of
                                            Inr d \<Rightarrow> d | Inl e \<Rightarrow> []) files)"
    and a: "\<forall>f \<in> set files. \<exists>d. ChatbotManager_file_outcome env f = Inr d"
    by simp_all
  show ?thesis
  proof
    fix f assume f: "f \<in> set files"
    with a obtain d where d: "ChatbotManager_file_outcome env f = Inr d" by blast
    from c ds f have "(case ChatbotManager_file_outcome env f of Inr d \<Rightarrow> d | Inl e \<Rightarrow> []) = []"
      by auto
    with d show "ChatbotManager_file_outcome env f = Inr []" by simp
  qed
qed

lemma base_process_documents_raise:
  assumes "\<forall>g \<in> set pre. \<exists>d. ChatbotManager_file_outcome env g = Inr d"
    and "ChatbotManager_file_outcome env f = Inl e"
  shows "fst (ChatbotManager_process_documents env (pre @ f # post) s) = Inl e"
proof -
  obtain s1 where "ChatbotManager_load_files env (pre @ f # post) [] s = (Inl e, s1)"
    using base_load_files_raise [OF assms, of post "[]" s] by (metis fst_conv surj_pair)
  then show ?thesis
    by (simp add: ChatbotManager_process_documents_def)
qed

text \<open>
  Claim C6, as amended. \<^verbatim>\<open>EnhancedChatbotManager.process_documents\<close>: the loop never
  stops at a failing file, it collects the documents of all the files that load and one
  error entry for each file that does not; when there is such an entry, the warning with
  all entries is shown; \<^verbatim>\<open>None\<close> is returned exactly when no file gave a document.
  \<^verbatim>\<open>ChatbotManager.process_documents\<close>: it returns \<^verbatim>\<open>None\<close> only when every file gave no
  document, and the first file whose loader raises ends the batch with that exception.
\<close>

theorem process_documents_failure_policy:
  "fst (EnhancedChatbotManager_load_files env files [] [] s)
      = (concat (map (EnhancedChatbotManager_file_documents env) files),
         concat (map (EnhancedChatbotManager_file_errors env) files))
   \<and> (concat (map (EnhancedChatbotManager_file_errors env) files) \<noteq> [] \<longrightarrow>
        StWarning (''Some files had errors:'' @ nl
            @ join nl (concat (map (EnhancedChatbotManager_file_errors env) files)))
          \<in> set (effects (snd (EnhancedChatbotManager_process_documents env files s))))
   \<and> (fst (EnhancedChatbotManager_process_documents env files s) = Inr None
        \<longleftrightarrow> concat (map (EnhancedChatbotManager_file_documents env) files) = [])
   \<and> (fst (ChatbotManager_process_documents env files s) = Inr None
        \<longrightarrow> (\<forall>f \<in> set files. ChatbotManager_file_outcome env f = Inr []))
   \<and> ((\<forall>g \<in> set pre. \<exists>d. ChatbotManager_file_outcome env g = Inr d)
        \<and> ChatbotManager_file_outcome env f = Inl e
        \<longrightarrow> fst (ChatbotManager_process_documents env (pre @ f # post) s) = Inl e)"
proof (intro conjI impI)
  show "fst (EnhancedChatbotManager_load_files env files [] [] s)
      = (concat (map (EnhancedChatbotManager_file_documents env) files),
         concat (map (EnhancedChatbotManager_file_errors env) files))"
    using enhanced_load_files_result [of env files "[]" "[]" s] by simp
  show "fst (EnhancedChatbotManager_process_documents env files s) = Inr None
        \<longleftrightarrow> concat (map (EnhancedChatbotManager_file_documents env) files) = []"
    unfolding enhanced_process_documents_result Let_def
    by (simp split: sum.split)
next
  assume "concat (map (EnhancedChatbotManager_file_errors env) files) \<noteq> []"
  then show "StWarning (''Some files had errors:'' @ nl
            @ join nl (concat (map (EnhancedChatbotManager_file_errors env) files)))
          \<in> set (effects (snd (EnhancedChatbotManager_process_documents env files s)))"
    by (rule enhanced_process_documents_warning)
next
  assume "fst (ChatbotManager_process_documents env files s) = Inr None"
  then show "\<forall>f \<in> set files. ChatbotManager_file_outcome env f = Inr []"
    by (rule base_process_documents_none)
next
  assume "(\<forall>g \<in> set pre. \<exists>d. ChatbotManager_file_outcome env g = Inr d)
        \<and> ChatbotManager_file_outcome env f = Inl e"
  then show "fst (ChatbotManager_process_documents env (pre @ f # post) s) = Inl e"
    using base_process_documents_raise [of pre env f e post s] by blast
qed

theorem process_documents_failure_policy_witness:
  "StWarning (''Some files had errors:'' @ nl @ ''Error processing broken.pdf: empty file'')
      \<in> set (effects (snd (EnhancedChatbotManager_process_documents (example_env (Inr ''ok'') (Inr ''ok''))
          [\<lparr>name = ''broken.pdf'', getvalue = ''''\<rparr>, \<lparr>name = ''notes.txt'', getvalue = ''hello''\<rparr>]
          init_session_state)))
   \<and> fst (EnhancedChatbotManager_load_files (example_env (Inr ''ok'') (Inr ''ok''))
          [\<lparr>name = ''broken.pdf'', getvalue = ''''\<rparr>, \<lparr>name = ''notes.txt'', getvalue = ''hello''\<rparr>]
          [] [] init_session_state)
       = ([\<lparr>page_content = ''hello'', metadata = [(''source'', ''notes.txt'')]\<rparr>],
          [''Error processing broken.pdf: empty file''])
   \<and> fst (EnhancedChatbotManager_process_documents (example_env (Inr ''ok'') (Inr ''ok''))
          [\<lparr>name = ''broken.pdf'', getvalue = ''''\<rparr>, \<lparr>name = ''notes.txt'', getvalue = ''hello''\<rparr>]
          init_session_state) \<noteq> Inr None
   \<and> fst (EnhancedChatbotManager_process_documents (example_env (Inr ''ok'') (Inr ''ok''))
          [\<lparr>name = ''broken.pdf'', getvalue = ''''\<rparr>] init_session_state) = Inr None
   \<and> ChatbotManager_file_outcome (example_env (Inr ''ok'') (Inr ''ok''))
          \<lparr>name = ''readme.md'', getvalue = ''text''\<rparr> = Inr []
   \<and> fst (ChatbotManager_process_documents (example_env (Inr ''ok'') (Inr ''ok''))
          [\<lparr>name = ''notes.txt'', getvalue = ''hello''\<rparr>, \<lparr>name = ''broken.pdf'', getvalue = ''''\<rparr>,
           \<lparr>name = ''more.txt'', getvalue = ''world''\<rparr>]
          init_session_state) = Inl (Exception ''empty file'')"
proof -
  let ?env = "example_env (Inr ''ok'') (Inr ''ok'')"
  let ?bad = "\<lparr>name = ''broken.pdf'', getvalue = ''''\<rparr>"
  let ?good = "\<lparr>name = ''notes.txt'', getvalue = ''hello''\<rparr>"
  let ?more = "\<lparr>name = ''more.txt'', getvalue = ''world''\<rparr>"
  let ?md = "\<lparr>name = ''readme.md'', getvalue = ''text''\<rparr>"
  let ?s = "init_session_state :: unit session"
  have e: "concat (map (EnhancedChatbotManager_file_errors ?env) [?bad, ?good])
             = [''Error processing broken.pdf: empty file'']"
    by code_simp
  have d: "concat (map (EnhancedChatbotManager_file_documents ?env) [?bad, ?good])
             = [\<lparr>page_content = ''hello'', metadata = [(''source'', ''notes.txt'')]\<rparr>]"
    by code_simp
  have d1: "concat (map (EnhancedChatbotManager_file_documents ?env) [?bad]) = []"
    by code_simp
  have n: "fst (ChatbotManager_process_documents ?env [?md] ?s) = Inr None"
    by code_simp
  have g: "ChatbotManager_file_outcome ?env ?good
             = Inr [\<lparr>page_content = ''hello'', metadata = [(''source'', ''notes.txt'')]\<rparr>]"
    by code_simp
  have b: "ChatbotManager_file_outcome ?env ?bad = Inl (Exception ''empty file'')"
    by code_simp
  have pre: "\<forall>g \<in> set [?good]. \<exists>d. ChatbotManager_file_outcome ?env g = Inr d"
    using g by simp
  note t = process_documents_failure_policy [of ?env "[?bad, ?good]" ?s "[]" ?bad "Exception ''x''" "[]", unfolded e d]
  from t have "[''Error processing broken.pdf: empty file''] \<noteq> [] \<longrightarrow>
      StWarning (''Some files had errors:'' @ nl
            @ join nl [''Error processing broken.pdf: empty file''])
      \<in> set (effects (snd (EnhancedChatbotManager_process_documents ?env [?bad, ?good] ?s)))"
    by blast
  then have 1: "StWarning (''Some files had errors:'' @ nl @ ''Error processing broken.pdf: empty file'')
      \<in> set (effects (snd (EnhancedChatbotManager_process_documents ?env [?bad, ?good] ?s)))"
    by simp
  from t have 2: "fst (EnhancedChatbotManager_load_files ?env [?bad, ?good] [] [] ?s)
       = ([\<lparr>page_content = ''hello'', metadata = [(''source'', ''notes.txt'')]\<rparr>],
          [''Error processing broken.pdf: empty file''])"
    by blast
  from t have "(fst (EnhancedChatbotManager_process_documents ?env [?bad, ?good] ?s) = Inr None)
      = ([\<lparr>page_content = ''hello'', metadata = [(''source'', ''notes.txt'')]\<rparr>] = [])"
    by blast
  then have 3: "fst (EnhancedChatbotManager_process_documents ?env [?bad, ?good] ?s) \<noteq> Inr None"
    by simp
  from process_documents_failure_policy [of ?env "[?bad]" ?s "[]" ?bad "Exception ''x''" "[]", unfolded d1]
  have 4: "fst (EnhancedChatbotManager_process_documents ?env [?bad] ?s) = Inr None"
    by blast
  from process_documents_failure_policy [of ?env "[?md]" ?s "[]" ?bad "Exception ''x''" "[]"] n
  have "\<forall>f \<in> set [?md]. ChatbotManager_file_outcome ?env f = Inr []"
    by blast
  then have 5: "ChatbotManager_file_outcome ?env ?md = Inr []"
    by simp
  from process_documents_failure_policy [of ?env "[]" ?s "[?good]" ?bad "Exception ''empty file''" "[?more]"] pre b
  have "fst (ChatbotManager_process_documents ?env ([?good] @ ?bad # [?more]) ?s)
             = Inl (Exception ''empty file'')"
    by blast
  then have 6: "fst (ChatbotManager_process_documents ?env [?good, ?bad, ?more] ?s)
             = Inl (Exception ''empty file'')"
    by (simp only: append_Cons append_Nil)
  from 1 2 3 4 5 6 show ?thesis by blast
qed

text \<open>
  In \<^verbatim>\<open>ChatbotManager\<close> the failure of one file is not caught: no warning is shown and
  the next file is never opened.
\<close>

theorem base_process_documents_propagates:
  "fst (ChatbotManager_process_documents (example_env (Inr ''ok'') (Inr ''ok''))
          [\<lparr>name = ''broken.pdf'', getvalue = ''''\<rparr>, \<lparr>name = ''notes.txt'', getvalue = ''hello''\<rparr>]
          init_session_state) = Inl (Exception ''empty file'')
   \<and> effects (snd (ChatbotManager_process_documents (example_env (Inr ''ok'') (Inr ''ok''))
          [\<lparr>name = ''broken.pdf'', getvalue = ''''\<rparr>, \<lparr>name = ''notes.txt'', getvalue = ''hello''\<rparr>]
          init_session_state))
       = [TempFileWrite ''broken.pdf'', LoaderLoad ''broken.pdf'', TempFileUnlink ''broken.pdf'']"
proof
  show "fst (ChatbotManager_process_documents (example_env (Inr ''ok'') (Inr ''ok''))
          [\<lparr>name = ''broken.pdf'', getvalue = ''''\<rparr>, \<lparr>name = ''notes.txt'', getvalue = ''hello''\<rparr>]
          init_session_state) = Inl (Exception ''empty file'')"
    by code_simp
  show "effects (snd (ChatbotManager_process_documents (example_env (Inr ''ok'') (Inr ''ok''))
          [\<lparr>name = ''broken.pdf'', getvalue = ''''\<rparr>, \<lparr>name = ''notes.txt'', getvalue = ''hello''\<rparr>]
          init_session_state))
       = [TempFileWrite ''broken.pdf'', LoaderLoad ''broken.pdf'', TempFileUnlink ''broken.pdf'']"
    by code_simp
qed

end
